theory Spec2Isabelle
  imports Main "HOL-Library.Multiset"
begin

section \<open>sblookup: the lookup loop of \<^verbatim>\<open>cmd/sblookup/main.go\<close>\<close>

text \<open>
  The command reads one URL per line from standard input, asks the Safe Browsing client
  about each, prints a verdict and leaves with an exit code. The model starts after
  \<^verbatim>\<open>flag.Parse()\<close> has returned, with the two flag values at hand. What the program
  cannot decide itself is input of the model: the flag values, the result of
  \<^verbatim>\<open>safebrowsing.NewSafeBrowser\<close>, the lines the scanner yields, what
  \<^verbatim>\<open>sb.LookupURLs\<close> returns for the call made on each line, and the scanner's error.
\<close>

subsection \<open>What the process writes and how it ends\<close>

datatype stream = Stdout | Stderr

text \<open>One entry per \<^verbatim>\<open>fmt.Fprintln\<close> call, in the order of the calls.\<close>

type_synonym writes = "(stream \<times> string) list"

text \<open>
  \<^verbatim>\<open>fmt.Fprintln\<close> writes its operands in their default format, a space between
  any two of them and a newline at the end. The operands are given already formatted.
\<close>

fun spaced :: "string list \<Rightarrow> string" where
  "spaced [] = []"
| "spaced [a] = a"
| "spaced (a # b # bs) = a @ '' '' @ spaced (b # bs)"

definition Fprintln :: "string list \<Rightarrow> string" where
  "Fprintln operands = spaced operands @ [CHR 0x0A]"

text \<open>
  The default format of a slice: its elements in brackets, separated by spaces. The type
  \<^verbatim>\<open>safebrowsing.URLThreat\<close> is declared in the imported package, which is not among
  the sources; it is the type parameter \<open>'t\<close>, and the default format of one value is the
  parameter \<open>fmt\<close>.
\<close>

definition fmt_slice :: "('t \<Rightarrow> string) \<Rightarrow> 't list \<Rightarrow> string" where
  "fmt_slice fmt ts = ''['' @ spaced (map fmt ts) @ '']''"

text \<open>
  The process ends in \<^verbatim>\<open>os.Exit\<close> with a code, or in a run-time panic: indexing a
  slice out of range panics in Go, and the Go run time then ends the process itself
  (with status 2, after a trace on standard error that is not modelled).
\<close>

datatype panic = IndexOutOfRange

datatype status = Exit int | Panic panic

record result =
  wrote :: writes
  status :: status

subsection \<open>The inputs of a run\<close>

record Config =
  APIKey :: string
  DBPath :: string

text \<open>
  A Go \<^verbatim>\<open>error\<close> is \<open>None\<close> for \<^verbatim>\<open>nil\<close> and otherwise the text of its
  \<^verbatim>\<open>Error()\<close>, which is all the program does with it. One scanned line comes with the
  two values \<^verbatim>\<open>sb.LookupURLs([]string{url})\<close> returns for it: \<^verbatim>\<open>threats\<close>, a slice
  of slices (\<^verbatim>\<open>nil\<close> is the empty list), and \<^verbatim>\<open>err\<close>.
\<close>

type_synonym 't scanned = "string \<times> 't list list \<times> string option"

record 't input =
  apiKeyFlag :: string
  databaseFlag :: string
  NewSafeBrowser :: "Config \<Rightarrow> string option"
  scanned :: "'t scanned list"
  scanner_Err :: "string option"

subsection \<open>The loop\<close>

text \<open>The two variables the loop changes: \<^verbatim>\<open>code\<close>, and what has been written.\<close>

record st =
  code :: int
  out :: writes

definition init :: st where
  "init = \<lparr>code = 0, out = []\<rparr>"

text \<open>Lines 86 to 91: \<^verbatim>\<open>if err != nil { Fprintln(...); if code != 0 { code = 128 } }\<close>.\<close>

definition lookup_failed :: "string option \<Rightarrow> st \<Rightarrow> st" where
  "lookup_failed err s =
     (case err of
        None \<Rightarrow> s
      | Some e \<Rightarrow>
          (let s1 = s\<lparr>out := out s @ [(Stderr, Fprintln [''Lookup error:'', e])]\<rparr>
           in if code s1 \<noteq> 0 then s1\<lparr>code := 128\<rparr> else s1))"

text \<open>
  Lines 92 to 99. The statement is not an \<^verbatim>\<open>else\<close> of the one before: it runs
  whether or not \<^verbatim>\<open>err\<close> was \<^verbatim>\<open>nil\<close>. \<^verbatim>\<open>threats[0]\<close> panics when \<^verbatim>\<open>threats\<close>
  has no element.
\<close>

definition verdict :: "('t \<Rightarrow> string) \<Rightarrow> string \<Rightarrow> 't list list \<Rightarrow> st \<Rightarrow> (panic \<times> st) + st" where
  "verdict fmt url threats s =
     (case threats of
        [] \<Rightarrow> Inl (IndexOutOfRange, s)
      | t0 # _ \<Rightarrow>
          if length t0 = 0
          then Inr (s\<lparr>out := out s @ [(Stdout, Fprintln [''Safe URL:'', url])]\<rparr>)
          else
            (let s1 = s\<lparr>out := out s @ [(Stdout, Fprintln [''Unsafe URL:'', fmt_slice fmt t0])]\<rparr>
             in Inr (if code s1 \<noteq> 0 then s1\<lparr>code := 1\<rparr> else s1)))"

text \<open>Lines 84 to 99, one iteration.\<close>

definition body :: "('t \<Rightarrow> string) \<Rightarrow> 't scanned \<Rightarrow> st \<Rightarrow> (panic \<times> st) + st" where
  "body fmt l s = (case l of (url, threats, err) \<Rightarrow> verdict fmt url threats (lookup_failed err s))"

text \<open>Lines 83 to 100: one iteration per scanned line; a panic ends the loop.\<close>

fun loop :: "('t \<Rightarrow> string) \<Rightarrow> 't scanned list \<Rightarrow> st \<Rightarrow> (panic \<times> st) + st" where
  "loop fmt [] s = Inr s"
| "loop fmt (l # ls) s =
     (case body fmt l s of
        Inl p \<Rightarrow> Inl p
      | Inr s' \<Rightarrow> loop fmt ls s')"

text \<open>Lines 101 to 106.\<close>

definition read_failed :: "string option \<Rightarrow> st \<Rightarrow> st" where
  "read_failed err s =
     (case err of
        None \<Rightarrow> s
      | Some e \<Rightarrow>
          (let s1 = s\<lparr>out := out s @ [(Stderr, Fprintln [''Unable to read input:'', e])]\<rparr>
           in if code s1 \<noteq> 0 then s1\<lparr>code := 128\<rparr> else s1))"

definition config_of :: "'t input \<Rightarrow> Config" where
  "config_of inp = \<lparr>APIKey = apiKeyFlag inp, DBPath = databaseFlag inp\<rparr>"

text \<open>Lines 67 to 107.\<close>

definition main :: "('t \<Rightarrow> string) \<Rightarrow> 't input \<Rightarrow> result" where
  "main fmt inp =
     (if apiKeyFlag inp = ''''
      then \<lparr>wrote = [(Stderr, Fprintln [''No -apikey specified''])], status = Exit 1\<rparr>
      else
        (case NewSafeBrowser inp (config_of inp) of
           Some e \<Rightarrow>
             \<lparr>wrote = [(Stderr, Fprintln [''Unable to initialize Safe Browsing client: '', e])],
              status = Exit 1\<rparr>
         | None \<Rightarrow>
             (case loop fmt (scanned inp) init of
                Inl (p, s) \<Rightarrow> \<lparr>wrote = out s, status = Panic p\<rparr>
              | Inr s \<Rightarrow>
                  (let s' = read_failed (scanner_Err inp) s
                   in \<lparr>wrote = out s', status = Exit (code s')\<rparr>))))"

subsection \<open>Reading a run\<close>

definition stdout_of :: "writes \<Rightarrow> string list" where
  "stdout_of ws = map snd (filter (\<lambda>w. fst w = Stdout) ws)"

definition stderr_of :: "writes \<Rightarrow> string list" where
  "stderr_of ws = map snd (filter (\<lambda>w. fst w = Stderr) ws)"

text \<open>The run gets past both start-up checks (lines 67 and 76).\<close>

definition startup_ok :: "'t input \<Rightarrow> bool" where
  "startup_ok inp \<longleftrightarrow> apiKeyFlag inp \<noteq> '''' \<and> NewSafeBrowser inp (config_of inp) = None"

text \<open>The state an iteration or a loop ends in, panic or not.\<close>

fun st_of :: "(panic \<times> st) + st \<Rightarrow> st" where
  "st_of (Inl (p, s)) = s"
| "st_of (Inr s) = s"

text \<open>The lookup for this line returned at least one list of threats.\<close>

definition has_batch :: "'t scanned \<Rightarrow> bool" where
  "has_batch l \<longleftrightarrow> fst (snd l) \<noteq> []"

text \<open>
  The lookup for this line succeeded and its first list of threats is empty, and the
  same for a non-empty first list.
\<close>

definition safe_lookup :: "'t scanned \<Rightarrow> bool" where
  "safe_lookup l \<longleftrightarrow>
     (case fst (snd l) of [] \<Rightarrow> False | t0 # _ \<Rightarrow> length t0 = 0) \<and> snd (snd l) = None"

definition unsafe_lookup :: "'t scanned \<Rightarrow> bool" where
  "unsafe_lookup l \<longleftrightarrow>
     (case fst (snd l) of [] \<Rightarrow> False | t0 # _ \<Rightarrow> 0 < length t0) \<and> snd (snd l) = None"


subsection \<open>Sample runs\<close>

text \<open>Threats are given by their default format in the samples.\<close>

definition run_with :: "string \<Rightarrow> string option \<Rightarrow> string scanned list \<Rightarrow> string option \<Rightarrow> string input" where
  "run_with key new_err ls read_err =
     \<lparr>apiKeyFlag = key, databaseFlag = '''', NewSafeBrowser = (\<lambda>c. new_err),
      scanned = ls, scanner_Err = read_err\<rparr>"

definition malware :: string where
  "malware = ''{bad1url.org {MALWARE ANY_PLATFORM URL_EXPRESSION}}''"

section \<open>Properties\<close>

subsection \<open>The exit code variable\<close>






subsection \<open>When the loop panics\<close>

lemma loop_append:
  "loop fmt (xs @ ys) s = (case loop fmt xs s of Inl p \<Rightarrow> Inl p | Inr s' \<Rightarrow> loop fmt ys s')"
  by (induction xs arbitrary: s) (auto split: sum.splits)

lemma body_Inr: "has_batch l \<Longrightarrow> \<exists>s'. body fmt l s = Inr s'"
  by (cases l) (auto simp: has_batch_def body_def verdict_def Let_def split: list.splits)


lemma loop_Inr: "list_all has_batch ls \<Longrightarrow> \<exists>s'. loop fmt ls s = Inr s'"
proof (induction ls arbitrary: s)
  case Nil
  then show ?case by simp
next
  case (Cons l ls)
  then obtain s' where "body fmt l s = Inr s'" using body_Inr [of l fmt s] by auto
  with Cons show ?case by simp
qed


subsection \<open>A run that gets past start-up\<close>

lemma main_startup_ok:
  "startup_ok inp \<Longrightarrow>
   main fmt inp =
     (case loop fmt (scanned inp) init of
        Inl (p, s) \<Rightarrow> \<lparr>wrote = out s, status = Panic p\<rparr>
      | Inr s \<Rightarrow>
          \<lparr>wrote = out (read_failed (scanner_Err inp) s),
           status = Exit (code (read_failed (scanner_Err inp) s))\<rparr>)"
  by (simp add: main_def startup_ok_def Let_def split: sum.splits prod.splits)


lemmas run_defs = main_def run_with_def config_of_def init_def body_def lookup_failed_def
  verdict_def read_failed_def Fprintln_def fmt_slice_def malware_def Let_def

lemmas sample_defs = run_with_def startup_ok_def config_of_def safe_lookup_def
  unsafe_lookup_def has_batch_def Fprintln_def fmt_slice_def malware_def init_def

subsection \<open>Unsafe URLs\<close>

text \<open>
  C1. A URL whose lookup succeeds with a non-empty list of matches gets the line
  \<open>Unsafe URL: <matches>\<close> on standard output, and the run is to end with an exit code
  of at least 1. The line is printed, but the exit code is not set: the update on line 96
  runs only when \<^verbatim>\<open>code\<close> is already non-zero. The run on the one line
  \<^verbatim>\<open>http://bad1url.org\<close>, found unsafe, ends with exit code 0.
\<close>

theorem C1_unsafe_url_exits_0:
  "main (\<lambda>t. t) (run_with ''k'' None [(''http://bad1url.org'', [[malware]], None)] None) =
     \<lparr>wrote = [(Stdout, ''Unsafe URL: [{bad1url.org {MALWARE ANY_PLATFORM URL_EXPRESSION}}]\<newline>'')],
      status = Exit 0\<rparr>"
  by (simp add: run_defs)

subsection \<open>Failed lookups\<close>

text \<open>
  C2. A URL whose lookup fails is to get one diagnostic on standard error and no verdict
  on standard output, and the run is to end with exit code 128. The diagnostic is
  printed, but the verdict statement runs all the same, and the update on line 88 runs
  only when \<^verbatim>\<open>code\<close> is already non-zero: the run on one line whose lookup fails with
  a list holding one empty list of matches prints \<open>Safe URL\<close> for it and ends with
  exit code 0.
\<close>

theorem C2_failed_lookup_prints_verdict_exits_0:
  "main (\<lambda>t. t) (run_with ''k'' None [(''http://x.test'', [[]], Some ''timeout'')] None) =
     \<lparr>wrote = [(Stderr, ''Lookup error: timeout\<newline>''), (Stdout, ''Safe URL: http://x.test\<newline>'')],
      status = Exit 0\<rparr>"
  by (simp add: run_defs)


subsection \<open>A failed read\<close>

text \<open>
  C5. When reading the input fails, a diagnostic goes to standard error after the loop
  and the run is to end with exit code 128. The diagnostic is printed, but the update on
  line 103 runs only when \<^verbatim>\<open>code\<close> is already non-zero: the run whose first read fails
  ends with exit code 0.
\<close>

theorem C5_read_error_exits_0:
  "main (\<lambda>t. t) (run_with ''k'' None [] (Some ''read failed'')) =
     \<lparr>wrote = [(Stderr, ''Unable to read input: read failed\<newline>'')], status = Exit 0\<rparr>"
  by (simp add: run_defs)

subsection \<open>Safe URLs\<close>

lemma body_safe:
  "safe_lookup l \<Longrightarrow>
   body fmt l s = Inr (s\<lparr>out := out s @ [(Stdout, Fprintln [''Safe URL:'', fst l])]\<rparr>)"
  by (cases l) (auto simp: safe_lookup_def body_def verdict_def lookup_failed_def
      split: list.splits)

lemma loop_safe:
  "list_all safe_lookup ls \<Longrightarrow>
   loop fmt ls s =
     Inr (s\<lparr>out := out s @ map (\<lambda>l. (Stdout, Fprintln [''Safe URL:'', fst l])) ls\<rparr>)"
  by (induction ls arbitrary: s) (simp_all add: body_safe)

text \<open>
  C6. The iteration for a URL whose lookup succeeds with an empty list of matches writes
  the one line \<open>Safe URL: <url>\<close> to standard output and changes nothing else of the
  state, \<^verbatim>\<open>code\<close> included, whatever the state was. A run that gets past start-up,
  finds every URL safe and reads its input to the end writes these lines and nothing
  else and ends with exit code 0; with no input line it writes nothing and ends with
  exit code 0.
\<close>

theorem C6_safe_url:
  "(safe_lookup l \<longrightarrow>
      body fmt l s = Inr (s\<lparr>out := out s @ [(Stdout, Fprintln [''Safe URL:'', fst l])]\<rparr>)) \<and>
   (startup_ok inp \<and> list_all safe_lookup (scanned inp) \<and> scanner_Err inp = None \<longrightarrow>
      main fmt inp =
        \<lparr>wrote = map (\<lambda>l. (Stdout, Fprintln [''Safe URL:'', fst l])) (scanned inp),
         status = Exit 0\<rparr>) \<and>
   (startup_ok inp \<and> scanned inp = [] \<and> scanner_Err inp = None \<longrightarrow>
      main fmt inp = \<lparr>wrote = [], status = Exit 0\<rparr>)"
proof (intro conjI impI)
  assume "safe_lookup l"
  then show "body fmt l s = Inr (s\<lparr>out := out s @ [(Stdout, Fprintln [''Safe URL:'', fst l])]\<rparr>)"
    by (rule body_safe)
next
  assume "startup_ok inp \<and> list_all safe_lookup (scanned inp) \<and> scanner_Err inp = None"
  then show "main fmt inp =
        \<lparr>wrote = map (\<lambda>l. (Stdout, Fprintln [''Safe URL:'', fst l])) (scanned inp),
         status = Exit 0\<rparr>"
    by (simp add: main_startup_ok loop_safe read_failed_def init_def)
next
  assume "startup_ok inp \<and> scanned inp = [] \<and> scanner_Err inp = None"
  then show "main fmt inp = \<lparr>wrote = [], status = Exit 0\<rparr>"
    by (simp add: main_startup_ok read_failed_def init_def)
qed

theorem C6_safe_url_witness:
  "safe_lookup (''https://google.com'', [[]], None) \<and>
   body (\<lambda>t. t) (''https://google.com'', [[]], None) init =
     Inr \<lparr>code = 0, out = [(Stdout, ''Safe URL: https://google.com\<newline>'')]\<rparr> \<and>
   startup_ok (run_with ''k'' None [(''https://google.com'', [[]], None), ('''', [[]], None)] None) \<and>
   main (\<lambda>t. t) (run_with ''k'' None [(''https://google.com'', [[]], None), ('''', [[]], None)] None) =
     \<lparr>wrote = [(Stdout, ''Safe URL: https://google.com\<newline>''), (Stdout, ''Safe URL: \<newline>'')],
      status = Exit 0\<rparr> \<and>
   main (\<lambda>t. t) (run_with ''k'' None [] None) = \<lparr>wrote = [], status = Exit 0\<rparr>"
  using C6_safe_url [of "(''https://google.com'', [[]], None)" "\<lambda>t. t" init
      "run_with ''k'' None [(''https://google.com'', [[]], None), ('''', [[]], None)] None"]
    C6_safe_url [of "(''https://google.com'', [[]], None)" "\<lambda>t. t" init "run_with ''k'' None [] None"]
  by (simp add: sample_defs)

subsection \<open>Start-up failures\<close>

text \<open>
  C7. When the \<^verbatim>\<open>-apikey\<close> flag is empty or \<^verbatim>\<open>NewSafeBrowser\<close> returns an error,
  the run writes one diagnostic to standard error, nothing to standard output, and ends
  with exit code 1; the lines of the input, the lookups and the scanner's error have no
  part in it.
\<close>

theorem C7_startup_failure:
  assumes "\<not> startup_ok inp"
  shows "status (main fmt inp) = Exit 1 \<and>
    stdout_of (wrote (main fmt inp)) = [] \<and>
    length (stderr_of (wrote (main fmt inp))) = 1 \<and>
    (\<forall>ls e. main fmt (inp\<lparr>scanned := ls, scanner_Err := e\<rparr>) = main fmt inp) \<and>
    (apiKeyFlag inp = '''' \<longrightarrow>
       wrote (main fmt inp) = [(Stderr, Fprintln [''No -apikey specified''])]) \<and>
    (apiKeyFlag inp \<noteq> '''' \<longrightarrow>
       (\<exists>e. NewSafeBrowser inp (config_of inp) = Some e \<and>
          wrote (main fmt inp) =
            [(Stderr, Fprintln [''Unable to initialize Safe Browsing client: '', e])]))"
  using assms
  by (auto simp: main_def startup_ok_def config_of_def stdout_of_def stderr_of_def)

theorem C7_startup_failure_witness:
  "\<not> startup_ok (run_with '''' None [(''http://bad1url.org'', [[malware]], None)] None) \<and>
   main (\<lambda>t. t) (run_with '''' None [(''http://bad1url.org'', [[malware]], None)] None) =
     \<lparr>wrote = [(Stderr, ''No -apikey specified\<newline>'')], status = Exit 1\<rparr> \<and>
   \<not> startup_ok (run_with ''k'' (Some ''bad key'') [(''http://bad1url.org'', [[malware]], None)] None) \<and>
   main (\<lambda>t. t) (run_with ''k'' (Some ''bad key'') [(''http://bad1url.org'', [[malware]], None)] None) =
     \<lparr>wrote = [(Stderr, ''Unable to initialize Safe Browsing client:  bad key\<newline>'')],
      status = Exit 1\<rparr>"
  using C7_startup_failure [of "run_with '''' None [(''http://bad1url.org'', [[malware]], None)] None" "\<lambda>t. t"]
    C7_startup_failure [of "run_with ''k'' (Some ''bad key'') [(''http://bad1url.org'', [[malware]], None)] None" "\<lambda>t. t"]
  by (simp add: sample_defs main_def)

subsection \<open>Standard output follows the input\<close>


lemma out_lookup_failed:
  "out (lookup_failed e s) =
     out s @ (case e of None \<Rightarrow> [] | Some x \<Rightarrow> [(Stderr, Fprintln [''Lookup error:'', x])])"
  by (simp add: lookup_failed_def Let_def split: option.splits)

lemma out_read_failed:
  "out (read_failed e s) =
     out s @ (case e of None \<Rightarrow> [] | Some x \<Rightarrow> [(Stderr, Fprintln [''Unable to read input:'', x])])"
  by (simp add: read_failed_def Let_def split: option.splits)

lemma out_verdict:
  "out (st_of (verdict fmt u ts s)) = out s @ out (st_of (verdict fmt u ts init))"
  by (simp add: verdict_def init_def Let_def split: list.splits)

lemma out_body: "out (st_of (body fmt l s)) = out s @ out (st_of (body fmt l init))"
proof (cases l)
  case (fields u ts e)
  have "out (st_of (verdict fmt u ts (lookup_failed e s))) =
      out (lookup_failed e s) @ out (st_of (verdict fmt u ts init))"
    by (rule out_verdict)
  moreover have "out (st_of (verdict fmt u ts (lookup_failed e init))) =
      out (lookup_failed e init) @ out (st_of (verdict fmt u ts init))"
    by (rule out_verdict)
  ultimately show ?thesis
    using fields by (simp add: body_def out_lookup_failed init_def)
qed








subsection \<open>The exit code of a run that gets past start-up\<close>




subsection \<open>A lookup that fails and still returns matches\<close>

lemma out_loop: "\<exists>b. out (st_of (loop fmt ls s)) = out s @ b"
proof (induction ls arbitrary: s)
  case Nil
  then show ?case by simp
next
  case (Cons l ls)
  show ?case
  proof (cases "body fmt l s")
    case (Inl p)
    then show ?thesis using out_body [of fmt l s] by (cases p) auto
  next
    case (Inr s')
    then have "out s' = out s @ out (st_of (body fmt l init))"
      using out_body [of fmt l s] by simp
    moreover obtain b where "out (st_of (loop fmt ls s')) = out s' @ b"
      using Cons.IH [of s'] by blast
    ultimately show ?thesis using Inr by simp
  qed
qed

lemma wrote_main:
  "startup_ok inp \<Longrightarrow> \<exists>b. wrote (main fmt inp) = out (st_of (loop fmt (scanned inp) init)) @ b"
  by (auto simp: main_startup_ok out_read_failed split: sum.splits prod.splits)

lemma body_failed_unsafe:
  "body fmt (u, (m # ms) # rest, Some e) s =
     Inr \<lparr>code = (if code s = 0 then 0 else 1),
          out = out s @ [(Stderr, Fprintln [''Lookup error:'', e]),
                         (Stdout, Fprintln [''Unsafe URL:'', fmt_slice fmt (m # ms)])]\<rparr>"
  by (simp add: body_def verdict_def lookup_failed_def Let_def)

text \<open>
  C10. The iteration for a URL whose lookup returns an error together with a non-empty
  first list of matches writes the diagnostic \<open>Lookup error: <error>\<close> to standard
  error and then the verdict \<open>Unsafe URL: <matches>\<close> to standard output, from any
  state. In a run that gets past start-up and reaches such a line (every lookup before
  it returned a list), the two writes are in what the run writes, one after the other.
\<close>

theorem C10_error_and_verdict:
  "body fmt (u, (m # ms) # rest, Some e) s =
     Inr \<lparr>code = (if code s = 0 then 0 else 1),
          out = out s @ [(Stderr, Fprintln [''Lookup error:'', e]),
                         (Stdout, Fprintln [''Unsafe URL:'', fmt_slice fmt (m # ms)])]\<rparr> \<and>
   (startup_ok inp \<and> scanned inp = pre @ (u, (m # ms) # rest, Some e) # post \<and>
    list_all has_batch pre \<longrightarrow>
      (\<exists>a b. wrote (main fmt inp) =
         a @ [(Stderr, Fprintln [''Lookup error:'', e]),
              (Stdout, Fprintln [''Unsafe URL:'', fmt_slice fmt (m # ms)])] @ b))"
proof (intro conjI impI)
  show "body fmt (u, (m # ms) # rest, Some e) s =
     Inr \<lparr>code = (if code s = 0 then 0 else 1),
          out = out s @ [(Stderr, Fprintln [''Lookup error:'', e]),
                         (Stdout, Fprintln [''Unsafe URL:'', fmt_slice fmt (m # ms)])]\<rparr>"
    by (rule body_failed_unsafe)
next
  let ?two = "[(Stderr, Fprintln [''Lookup error:'', e]),
              (Stdout, Fprintln [''Unsafe URL:'', fmt_slice fmt (m # ms)])]"
  assume a: "startup_ok inp \<and> scanned inp = pre @ (u, (m # ms) # rest, Some e) # post \<and>
    list_all has_batch pre"
  then obtain s1 where s1: "loop fmt pre init = Inr s1"
    using loop_Inr by blast
  obtain s2 where s2: "body fmt (u, (m # ms) # rest, Some e) s1 = Inr s2"
    and o2: "out s2 = out s1 @ ?two"
    by (simp add: body_failed_unsafe)
  from a s1 s2 have "loop fmt (scanned inp) init = loop fmt post s2"
    by (simp add: loop_append)
  moreover obtain b where "out (st_of (loop fmt post s2)) = out s2 @ b"
    using out_loop by blast
  moreover obtain c where "wrote (main fmt inp) = out (st_of (loop fmt (scanned inp) init)) @ c"
    using a wrote_main by blast
  ultimately have "wrote (main fmt inp) = out s1 @ ?two @ (b @ c)"
    using o2 by simp
  then show "\<exists>a b. wrote (main fmt inp) = a @ ?two @ b" by blast
qed

theorem C10_error_and_verdict_witness:
  "startup_ok (run_with ''k'' None
      [(''https://google.com'', [[]], None), (''http://bad1url.org'', [[malware]], Some ''timeout'')]
      None) \<and>
   list_all has_batch [(''https://google.com'', [[]], None)] \<and>
   main (\<lambda>t. t) (run_with ''k'' None
      [(''https://google.com'', [[]], None), (''http://bad1url.org'', [[malware]], Some ''timeout'')]
      None) =
     \<lparr>wrote = [(Stdout, ''Safe URL: https://google.com\<newline>''),
               (Stderr, ''Lookup error: timeout\<newline>''),
               (Stdout, ''Unsafe URL: [{bad1url.org {MALWARE ANY_PLATFORM URL_EXPRESSION}}]\<newline>'')],
      status = Exit 0\<rparr>"
  using C10_error_and_verdict [of "\<lambda>t. t" "''http://bad1url.org''" malware "[]" "[]" "''timeout''" init
      "run_with ''k'' None
        [(''https://google.com'', [[]], None), (''http://bad1url.org'', [[malware]], Some ''timeout'')]
        None" "[(''https://google.com'', [[]], None)]" "[]"]
  by (simp add: run_defs startup_ok_def has_batch_def)

subsection \<open>The outcome over a run\<close>

text \<open>
  What one iteration does to \<^verbatim>\<open>code\<close>, from any value: nothing at 0; from any other
  value an unsafe verdict makes it 1, also after the error branch has made it 128.
\<close>

lemma code_body_table:
  "has_batch l \<Longrightarrow>
   code (st_of (body fmt l s)) =
     (if code s = 0 then 0
      else if 0 < length (hd (fst (snd l))) then 1
      else if snd (snd l) \<noteq> None then 128
      else code s)"
  by (cases l)
    (auto simp: has_batch_def body_def verdict_def lookup_failed_def Let_def
      split: list.splits option.splits)






end
